theory Spec2Isabelle
  imports Main "HOL-Library.Sublist"
begin

section \<open>Data model\<close>

text \<open>
  The repository holds six components that run the same token / embed / resize
  sequence against the Superset embedded SDK:
  \<^item> \<open>RxjsDashboardComponent\<close> (page) and the RxJS version of \<open>DashboardComponent\<close>:
    one RxJS pipeline closed by \<open>takeUntil(destroy$)\<close>;
  \<^item> \<open>LifecycleDashboardComponent\<close> (page) and the signals version of
    \<open>DashboardComponent\<close>: an async function, a \<open>ResizeObserver\<close> writing a signal and an
    \<open>afterRenderEffect\<close> writing the DOM;
  \<^item> \<open>CssDashboardComponent\<close>: token and embed only, sizing left to CSS;
  \<^item> \<open>AfterNextRenderDashboardComponent\<close>: token fetched in \<open>ngOnInit\<close>, embed started
    from \<open>afterNextRender\<close>.

  Each component is a record of its fields; each callback of the source is a function
  from component to component; the browser, Angular, the HTTP client and the SDK are the
  environment, which delivers events.
\<close>

text \<open>The union type of the \<open>currentStep\<close> signal.\<close>

datatype lifecycle = Idle | Token | Embed | Resize | Done

text \<open>
  \<open>contentRect\<close> of a \<open>ResizeObserverEntry\<close>, reduced to the two fields the code reads.
  The code only stores these numbers, compares them with \<open>===\<close> and prints them into
  \<open>`${width}px`\<close>; they are modelled as integers.
\<close>

record rect =
  width :: int
  height :: int

text \<open>An element of the document, by identity.\<close>

type_synonym elem = nat

text \<open>
  \<open>interface EmbedContext\<close>. The \<open>mountPoint\<close> field is left out: a component has exactly
  one mount container, whose iframe children are the field \<open>mountIframes\<close> below.
  \<open>guestToken\<close> is \<open>None\<close> when the value read from the response is \<open>undefined\<close>.
\<close>

record EmbedContext =
  ctxDashboardId :: string
  guestToken :: "string option"
  iframe :: "elem option"

text \<open>
  Where the one activation of a component stands: nothing subscribed yet, the GET in
  flight, \<open>embedDashboard\<close> in flight (with the context of the closure that waits for
  it), the resize stream subscribed (RxJS family), run to its end, or ended early (error
  handler ran, or the subscription was closed).
\<close>

datatype phase =
    NotStarted
  | AwaitToken
  | AwaitEmbed EmbedContext
  | Observing EmbedContext
  | Finished
  | Closed

record component =
  isLoading :: bool
  hasError :: bool
  errorMessage :: string
  currentStep :: lifecycle
  dashboardId :: "string option"
  destroyStopped :: bool
  pipeSubscribed :: bool
  phase :: phase
  pending :: "(rect \<times> nat) option"
  lastEmitted :: "rect option"
  observerConnected :: bool
  iframeSize :: "rect option"
  iframeEl :: "elem option"
  effectDirty :: bool
  destroyed :: bool
  mountIframes :: "elem list"
  stepLog :: "lifecycle list"
  requests :: "string list"
  embedCalls :: "string list"
  writes :: "(elem \<times> rect) list"
  consoleErrors :: "string list"

text \<open>
  The fields, in the order above:
  \<^item> the four signals exposed to the template;
  \<^item> \<open>dashboardId\<close>: the \<open>@Input()\<close> of \<open>DashboardComponent\<close>, \<open>None\<close> when the input is
    not bound (\<open>undefined\<close>); the page components use constants instead;
  \<^item> \<open>destroyStopped\<close>: the subject \<open>destroy$\<close> has completed;
  \<^item> \<open>pipeSubscribed\<close>: the pipeline on \<open>guestToken$\<close> is subscribed (afterNextRender
    page only);
  \<^item> \<open>pending\<close>: the value held by \<open>debounceTime(100)\<close> and the milliseconds left until it
    is emitted; \<open>lastEmitted\<close>: the value \<open>distinctUntilChanged\<close> compares with;
  \<^item> \<open>observerConnected\<close>: a \<open>ResizeObserver\<close> created by the component observes the mount
    point;
  \<^item> \<open>iframeSize\<close>, \<open>iframeEl\<close>: the private signal and field of the signals family;
    \<open>effectDirty\<close>: the \<open>afterRenderEffect\<close> has to run at the next render (it runs once
    at first, then whenever \<open>iframeSize\<close> was set);
  \<^item> \<open>destroyed\<close>: Angular has destroyed the component;
  \<^item> \<open>mountIframes\<close>: the iframe elements under the mount container, in document order;
  \<^item> the observation logs: every value \<open>currentStep\<close> has taken, every URL requested
    from the BFF, the \<open>id\<close> of every \<open>embedDashboard\<close> call, every application of a
    width and height to an element's style, every cause given to \<open>console.error\<close>.
\<close>

datatype variant =
    RxjsPage
  | DashboardRx
  | LifecyclePage
  | DashboardSignals
  | CssPage
  | AfterNextRenderPage

datatype family = RxFamily | SignalsFamily | CssFamily | AnrFamily

fun familyOf :: "variant \<Rightarrow> family" where
  "familyOf RxjsPage = RxFamily"
| "familyOf DashboardRx = RxFamily"
| "familyOf LifecyclePage = SignalsFamily"
| "familyOf DashboardSignals = SignalsFamily"
| "familyOf CssPage = CssFamily"
| "familyOf AfterNextRenderPage = AnrFamily"

subsection \<open>The environment\<close>

text \<open>
  What the HTTP client hands to \<open>getGuestToken\<close>: an error (network error, non-2xx status,
  a body that does not parse as JSON), or the parsed body. A parsed body is \<open>null\<close> or an
  object, of which only the \<open>token\<close> property matters (\<open>None\<close>: the object has none).
\<close>

datatype body = JsonNull | JsonObject "string option"

datatype http_result = HttpFailure string | HttpSuccess body

datatype embed_result = EmbedResolved | EmbedRejected string

datatype event =
    OnInit
  | ViewInit
  | HttpResponse http_result
  | SdkMount "elem list"
  | EmbedSettled embed_result
  | ResizeEntries "rect list"
  | Elapse nat
  | Render
  | Destroy

section \<open>Constants of the source\<close>

definition bffUrl :: string where
  "bffUrl = ''http://localhost:3000''"

definition rxjsPageDashboardId :: string where
  "rxjsPageDashboardId = ''abbb00fa-f7c9-4162-9c88-4a1ab1af1998''"

definition pageDashboardId :: string where
  "pageDashboardId = ''974e943f-f298-4c77-b56f-5bb1bd71ce42''"

text \<open>
  The two message literals, as their UTF-8 bytes: the text set when the identifier is
  missing, and the one text set by every error handler.
\<close>

definition missingIdMessage :: string where
  "missingIdMessage = ''dashboardId '' @
     [CHR 0xE3, CHR 0x81, CHR 0x8C, CHR 0xE6, CHR 0x8C, CHR 0x87, CHR 0xE5, CHR 0xAE, CHR 0x9A,
      CHR 0xE3, CHR 0x81, CHR 0x95, CHR 0xE3, CHR 0x82, CHR 0x8C, CHR 0xE3, CHR 0x81, CHR 0xA6,
      CHR 0xE3, CHR 0x81, CHR 0x84, CHR 0xE3, CHR 0x81, CHR 0xBE, CHR 0xE3, CHR 0x81, CHR 0x9B,
      CHR 0xE3, CHR 0x82, CHR 0x93, CHR 0xE3, CHR 0x80, CHR 0x82]"

definition loadFailedMessage :: string where
  "loadFailedMessage =
     [CHR 0xE3, CHR 0x83, CHR 0x80, CHR 0xE3, CHR 0x83, CHR 0x83, CHR 0xE3, CHR 0x82, CHR 0xB7,
      CHR 0xE3, CHR 0x83, CHR 0xA5, CHR 0xE3, CHR 0x83, CHR 0x9C, CHR 0xE3, CHR 0x83, CHR 0xBC,
      CHR 0xE3, CHR 0x83, CHR 0x89, CHR 0xE3, CHR 0x81, CHR 0xAE, CHR 0xE8, CHR 0xAA, CHR 0xAD,
      CHR 0xE3, CHR 0x81, CHR 0xBF, CHR 0xE8, CHR 0xBE, CHR 0xBC, CHR 0xE3, CHR 0x81, CHR 0xBF,
      CHR 0xE3, CHR 0x81, CHR 0xAB, CHR 0xE5, CHR 0xA4, CHR 0xB1, CHR 0xE6, CHR 0x95, CHR 0x97,
      CHR 0xE3, CHR 0x81, CHR 0x97, CHR 0xE3, CHR 0x81, CHR 0xBE, CHR 0xE3, CHR 0x81, CHR 0x97,
      CHR 0xE3, CHR 0x81, CHR 0x9F, CHR 0xE3, CHR 0x80, CHR 0x82] @
     ''Superset '' @ [CHR 0xE3, CHR 0x81, CHR 0xA8] @ '' BFF '' @
     [CHR 0xE3, CHR 0x81, CHR 0x8C, CHR 0xE8, CHR 0xB5, CHR 0xB7, CHR 0xE5, CHR 0x8B, CHR 0x95,
      CHR 0xE3, CHR 0x81, CHR 0x97, CHR 0xE3, CHR 0x81, CHR 0xA6, CHR 0xE3, CHR 0x81, CHR 0x84,
      CHR 0xE3, CHR 0x82, CHR 0x8B, CHR 0xE3, CHR 0x81, CHR 0x8B, CHR 0xE7, CHR 0xA2, CHR 0xBA,
      CHR 0xE8, CHR 0xAA, CHR 0x8D, CHR 0xE3, CHR 0x81, CHR 0x97, CHR 0xE3, CHR 0x81, CHR 0xA6,
      CHR 0xE3, CHR 0x81, CHR 0x8F, CHR 0xE3, CHR 0x81, CHR 0xA0, CHR 0xE3, CHR 0x81, CHR 0x95,
      CHR 0xE3, CHR 0x81, CHR 0x84, CHR 0xE3, CHR 0x80, CHR 0x82]"

section \<open>Shared pieces of the components\<close>

text \<open>
  \<open>this.currentStep.set(v)\<close>. A signal that is set to the value it already holds does not
  change, so the log of exposed values grows only when the value changes.
\<close>

definition setCurrentStep :: "lifecycle \<Rightarrow> component \<Rightarrow> component" where
  "setCurrentStep v s =
     s\<lparr>currentStep := v,
       stepLog := (if currentStep s = v then stepLog s else stepLog s @ [v])\<rparr>"

text \<open>\<open>!this.dashboardId\<close>: true of \<open>undefined\<close> and of the empty string.\<close>

definition falsy :: "string option \<Rightarrow> bool" where
  "falsy d = (case d of None \<Rightarrow> True | Some x \<Rightarrow> x = [])"

text \<open>
  The identifier a component works with: a constant of the page components, the input of
  \<open>DashboardComponent\<close> (an unbound input prints as \<open>undefined\<close> in a template literal).
\<close>

definition idOf :: "variant \<Rightarrow> component \<Rightarrow> string" where
  "idOf v s =
     (case v of
        RxjsPage \<Rightarrow> rxjsPageDashboardId
      | DashboardRx \<Rightarrow> (case dashboardId s of None \<Rightarrow> ''undefined'' | Some d \<Rightarrow> d)
      | LifecyclePage \<Rightarrow> pageDashboardId
      | DashboardSignals \<Rightarrow> (case dashboardId s of None \<Rightarrow> ''undefined'' | Some d \<Rightarrow> d)
      | CssPage \<Rightarrow> pageDashboardId
      | AfterNextRenderPage \<Rightarrow> pageDashboardId)"

text \<open>
  \<open>SupersetService.getGuestToken\<close>, in two halves: the GET it issues, and what its
  \<open>map((response) => response.token)\<close> makes of the outcome. \<open>Inl\<close> is an error
  notification, \<open>Inr\<close> the value emitted. Reading \<open>.token\<close> of \<open>null\<close> throws inside
  \<open>map\<close>, which turns it into an error notification; an object without the property
  gives \<open>undefined\<close>, which is emitted like any other value.
\<close>

definition getGuestToken :: "string \<Rightarrow> component \<Rightarrow> component" where
  "getGuestToken d s = s\<lparr>requests := requests s @ [bffUrl @ ''/superset/guest-token/'' @ d]\<rparr>"

fun responseToken :: "http_result \<Rightarrow> string + string option" where
  "responseToken (HttpFailure cause) = Inl cause"
| "responseToken (HttpSuccess JsonNull) = Inl ''TypeError''"
| "responseToken (HttpSuccess (JsonObject t)) = Inr t"

text \<open>\<open>mountPoint.querySelector('iframe')\<close>: the first iframe under the mount, or \<open>null\<close>.\<close>

definition querySelectorIframe :: "component \<Rightarrow> elem option" where
  "querySelectorIframe s = (case mountIframes s of [] \<Rightarrow> None | e # _ \<Rightarrow> Some e)"

text \<open>
  The rejection of a missing identifier (\<open>ngAfterViewInit\<close> of the RxJS
  \<open>DashboardComponent\<close>, first lines of \<open>initDashboard\<close> of its signals version). The
  \<open>return\<close> ends the activation.
\<close>

definition missingIdentifier :: "component \<Rightarrow> component" where
  "missingIdentifier s =
     (s\<lparr>hasError := True, errorMessage := missingIdMessage, isLoading := False\<rparr>)
       \<lparr>phase := Closed\<rparr>"

text \<open>
  The body shared by every \<open>catchError\<close>, \<open>catch\<close> and \<open>error:\<close> handler: log the cause,
  then expose the fixed message. The stream completes (\<open>EMPTY\<close>), the async function
  returns.
\<close>

definition pipelineFailure :: "string \<Rightarrow> component \<Rightarrow> component" where
  "pipelineFailure cause s =
     (s\<lparr>consoleErrors := consoleErrors s @ [cause], isLoading := False, hasError := True,
        errorMessage := loadFailedMessage\<rparr>)\<lparr>phase := Closed\<rparr>"

text \<open>
  The first \<open>tap\<close> and the request that follows it (\<open>startPipeline\<close>, \<open>ngAfterViewInit\<close>
  of the CSS page, \<open>ngOnInit\<close> of the afterNextRender page).
\<close>

definition beginTokenFetch :: "variant \<Rightarrow> component \<Rightarrow> component" where
  "beginTokenFetch v s =
     (let s1 = setCurrentStep Token s;
          s2 = s1\<lparr>isLoading := True, hasError := False\<rparr>
      in (getGuestToken (idOf v s) s2)\<lparr>phase := AwaitToken\<rparr>)"

text \<open>
  A token value arrives: \<open>currentStep.set('embed')\<close>, then \<open>embedDashboard\<close> is called with
  the identifier (the token itself is not passed on: the SDK fetches its own through the
  callback).
\<close>

definition invokeEmbed :: "variant \<Rightarrow> string option \<Rightarrow> component \<Rightarrow> component" where
  "invokeEmbed v tok s =
     (setCurrentStep Embed s)
       \<lparr>embedCalls := embedCalls s @ [idOf v s],
        phase := AwaitEmbed \<lparr>ctxDashboardId = idOf v s, guestToken = tok, iframe = None\<rparr>\<rparr>"

section \<open>The RxJS family\<close>

definition rx_startPipeline :: "variant \<Rightarrow> component \<Rightarrow> component" where
  "rx_startPipeline v s = beginTokenFetch v s"

text \<open>\<open>ngAfterViewInit\<close>: the page starts the pipeline; \<open>DashboardComponent\<close> checks its input first.\<close>

definition rx_ngAfterViewInit :: "variant \<Rightarrow> component \<Rightarrow> component" where
  "rx_ngAfterViewInit v s =
     (if v = DashboardRx \<and> falsy (dashboardId s) then missingIdentifier s
      else rx_startPipeline v s)"

text \<open>
  The embed promise resolves: the \<open>map\<close> stores the queried iframe in the context, the
  \<open>tap\<close> sets the signals, the last \<open>switchMap\<close> subscribes to \<open>fromResizeObserver\<close>.
\<close>

definition rx_embedResolved :: "EmbedContext \<Rightarrow> component \<Rightarrow> component" where
  "rx_embedResolved c s =
     (let c' = c\<lparr>iframe := querySelectorIframe s\<rparr>;
          s1 = setCurrentStep Resize (s\<lparr>isLoading := False\<rparr>)
      in s1\<lparr>phase := Observing c', observerConnected := True\<rparr>)"

text \<open>
  \<open>fromResizeObserver\<close> passes every entry on; \<open>debounceTime(100)\<close> keeps the last one and
  restarts its 100 ms.
\<close>

definition rx_resizeNext :: "rect \<Rightarrow> component \<Rightarrow> component" where
  "rx_resizeNext r s = s\<lparr>pending := Some (r, 100)\<rparr>"

definition fromResizeObserver :: "rect list \<Rightarrow> component \<Rightarrow> component" where
  "fromResizeObserver entries s = fold rx_resizeNext entries s"

text \<open>The comparator given to \<open>distinctUntilChanged\<close>.\<close>

definition sameSize :: "rect \<Rightarrow> rect \<Rightarrow> bool" where
  "sameSize a b = (width a = width b \<and> height a = height b)"

text \<open>The last \<open>tap\<close>: write the size if the context holds an iframe, then set \<open>done\<close>.\<close>

definition rx_applySize :: "EmbedContext \<Rightarrow> rect \<Rightarrow> component \<Rightarrow> component" where
  "rx_applySize c r s =
     setCurrentStep Done
       (case iframe c of None \<Rightarrow> s | Some e \<Rightarrow> s\<lparr>writes := writes s @ [(e, r)]\<rparr>)"

text \<open>The debounce timer fires: the held value goes through \<open>distinctUntilChanged\<close> to the \<open>tap\<close>.\<close>

definition rx_debounceEmit :: "EmbedContext \<Rightarrow> rect \<Rightarrow> component \<Rightarrow> component" where
  "rx_debounceEmit c r s =
     (let s0 = s\<lparr>pending := None\<rparr>
      in case lastEmitted s of
           None \<Rightarrow> rx_applySize c r (s0\<lparr>lastEmitted := Some r\<rparr>)
         | Some a \<Rightarrow>
             if sameSize a r then s0 else rx_applySize c r (s0\<lparr>lastEmitted := Some r\<rparr>))"

text \<open>Time passes while the resize stream is subscribed.\<close>

definition rx_elapse :: "nat \<Rightarrow> component \<Rightarrow> component" where
  "rx_elapse d s =
     (case phase s of
        Observing c \<Rightarrow>
          (case pending s of
             None \<Rightarrow> s
           | Some (r, left) \<Rightarrow>
               if left \<le> d then rx_debounceEmit c r s else s\<lparr>pending := Some (r, left - d)\<rparr>)
      | _ \<Rightarrow> s)"

text \<open>
  \<open>ngOnDestroy\<close>: \<open>destroy$.next()\<close> makes \<open>takeUntil\<close> unsubscribe the whole chain (the
  request is aborted, the embed result is no longer listened to, the debounce timer is
  cleared, the observer disconnected); on a completed subject \<open>next\<close> does nothing.
  Then \<open>destroy$.complete()\<close> and \<open>innerHTML = ''\<close>.
\<close>

definition rx_ngOnDestroy :: "component \<Rightarrow> component" where
  "rx_ngOnDestroy s =
     (let s1 = (if destroyStopped s then s
                else s\<lparr>phase := Closed, pending := None, observerConnected := False\<rparr>);
          s2 = s1\<lparr>destroyStopped := True\<rparr>
      in s2\<lparr>mountIframes := []\<rparr>)"

section \<open>The signals family\<close>

text \<open>\<open>initDashboard\<close> up to its first \<open>await\<close>.\<close>

definition lc_initDashboard :: "variant \<Rightarrow> component \<Rightarrow> component" where
  "lc_initDashboard v s =
     (if v = DashboardSignals \<and> falsy (dashboardId s) then missingIdentifier s
      else (getGuestToken (idOf v s) (setCurrentStep Token s))\<lparr>phase := AwaitToken\<rparr>)"

text \<open>
  \<open>initDashboard\<close> resumed with the token. The page logs \<open>guestToken.slice(0, 20)\<close>, which
  throws on \<open>undefined\<close> inside the \<open>try\<close>.
\<close>

definition lc_tokenResumed :: "variant \<Rightarrow> string option \<Rightarrow> component \<Rightarrow> component" where
  "lc_tokenResumed v tok s =
     (if v = LifecyclePage \<and> tok = None then pipelineFailure ''TypeError'' s
      else invokeEmbed v tok s)"

text \<open>\<open>initDashboard\<close> resumed after \<open>await embedDashboard(...)\<close>, to its end.\<close>

definition lc_embedResumed :: "component \<Rightarrow> component" where
  "lc_embedResumed s =
     (let s1 = s\<lparr>iframeEl := querySelectorIframe s, isLoading := False\<rparr>;
          s2 = setCurrentStep Resize s1
      in s2\<lparr>observerConnected := True, phase := Finished\<rparr>)"

text \<open>The \<open>ResizeObserver\<close> callback: \<open>entries[0]?.contentRect\<close> into the signal.\<close>

definition lc_resizeCallback :: "rect list \<Rightarrow> component \<Rightarrow> component" where
  "lc_resizeCallback entries s =
     (case entries of [] \<Rightarrow> s | r # _ \<Rightarrow> s\<lparr>iframeSize := Some r, effectDirty := True\<rparr>)"

text \<open>The body of the \<open>afterRenderEffect\<close>.\<close>

definition lc_afterRenderEffect :: "component \<Rightarrow> component" where
  "lc_afterRenderEffect s =
     (case iframeSize s of
        None \<Rightarrow> s
      | Some r \<Rightarrow>
          (case iframeEl s of
             None \<Rightarrow> s
           | Some e \<Rightarrow> setCurrentStep Done (s\<lparr>writes := writes s @ [(e, r)]\<rparr>)))"

text \<open>The callback given to \<open>destroyRef.onDestroy\<close>.\<close>

definition lc_onDestroy :: "component \<Rightarrow> component" where
  "lc_onDestroy s = s\<lparr>observerConnected := False, mountIframes := []\<rparr>"

section \<open>The CSS page and the afterNextRender page\<close>

definition css_ngAfterViewInit :: "variant \<Rightarrow> component \<Rightarrow> component" where
  "css_ngAfterViewInit v s = beginTokenFetch v s"

text \<open>The \<open>tap\<close> after the embed: both pages go straight to \<open>done\<close>.\<close>

definition css_embedResolved :: "component \<Rightarrow> component" where
  "css_embedResolved s = (setCurrentStep Done (s\<lparr>isLoading := False\<rparr>))\<lparr>phase := Finished\<rparr>"

definition css_ngOnDestroy :: "component \<Rightarrow> component" where
  "css_ngOnDestroy s = s\<lparr>mountIframes := []\<rparr>"

definition anr_ngOnInit :: "variant \<Rightarrow> component \<Rightarrow> component" where
  "anr_ngOnInit v s = beginTokenFetch v s"

definition anr_afterNextRender :: "component \<Rightarrow> component" where
  "anr_afterNextRender s = s\<lparr>pipeSubscribed := True\<rparr>"

text \<open>
  \<open>next: (token) => this.guestToken$.next(token)\<close>: a plain subject does not replay, so a
  token that arrives before the pipeline is subscribed is lost.
\<close>

definition anr_tokenNext :: "variant \<Rightarrow> string option \<Rightarrow> component \<Rightarrow> component" where
  "anr_tokenNext v tok s = (if pipeSubscribed s then invokeEmbed v tok s else s\<lparr>phase := Closed\<rparr>)"

definition anr_ngOnDestroy :: "component \<Rightarrow> component" where
  "anr_ngOnDestroy s =
     (let s1 = (if destroyStopped s then s else s\<lparr>phase := Closed, pipeSubscribed := False\<rparr>);
          s2 = s1\<lparr>destroyStopped := True\<rparr>
      in s2\<lparr>mountIframes := []\<rparr>)"

section \<open>Events\<close>

definition ngOnDestroy :: "variant \<Rightarrow> component \<Rightarrow> component" where
  "ngOnDestroy v s =
     (case familyOf v of
        RxFamily \<Rightarrow> rx_ngOnDestroy s
      | SignalsFamily \<Rightarrow> lc_onDestroy s
      | CssFamily \<Rightarrow> css_ngOnDestroy s
      | AnrFamily \<Rightarrow> anr_ngOnDestroy s)"

text \<open>
  One event of the environment, given to the callback that is waiting for it.
  What is assumed of the environment:
  \<^item> Angular runs \<open>ngOnInit\<close>, \<open>ngAfterViewInit\<close> and the \<open>afterNextRender\<close> callback at most
    once and never on a destroyed component, and stops an \<open>afterRenderEffect\<close> when its
    component is destroyed;
  \<^item> a response or a settled promise reaches only a callback that still waits for it
    (an unsubscribed observable delivers nothing; a pending \<open>await\<close> cannot be
    unsubscribed);
  \<^item> a \<open>ResizeObserver\<close> calls back only while connected;
  \<^item> the SDK may change the iframes under the mount at any time (\<open>SdkMount\<close>).
\<close>

fun step :: "variant \<Rightarrow> component \<Rightarrow> event \<Rightarrow> component" where
  "step v s OnInit =
     (if familyOf v = AnrFamily \<and> \<not> destroyed s \<and> phase s = NotStarted then anr_ngOnInit v s
      else s)"
| "step v s ViewInit =
     (if destroyed s then s
      else case familyOf v of
             RxFamily \<Rightarrow> if phase s = NotStarted then rx_ngAfterViewInit v s else s
           | SignalsFamily \<Rightarrow> if phase s = NotStarted then lc_initDashboard v s else s
           | CssFamily \<Rightarrow> if phase s = NotStarted then css_ngAfterViewInit v s else s
           | AnrFamily \<Rightarrow> if pipeSubscribed s then s else anr_afterNextRender s)"
| "step v s (HttpResponse res) =
     (if phase s = AwaitToken then
        (case responseToken res of
           Inl cause \<Rightarrow> pipelineFailure cause s
         | Inr tok \<Rightarrow>
             (case familyOf v of
                RxFamily \<Rightarrow> invokeEmbed v tok s
              | SignalsFamily \<Rightarrow> lc_tokenResumed v tok s
              | CssFamily \<Rightarrow> invokeEmbed v tok s
              | AnrFamily \<Rightarrow> anr_tokenNext v tok s))
      else s)"
| "step v s (SdkMount es) = s\<lparr>mountIframes := es\<rparr>"
| "step v s (EmbedSettled r) =
     (case phase s of
        AwaitEmbed c \<Rightarrow>
          (case r of
             EmbedRejected cause \<Rightarrow> pipelineFailure cause s
           | EmbedResolved \<Rightarrow>
               (case familyOf v of
                  RxFamily \<Rightarrow> rx_embedResolved c s
                | SignalsFamily \<Rightarrow> lc_embedResumed s
                | CssFamily \<Rightarrow> css_embedResolved s
                | AnrFamily \<Rightarrow> css_embedResolved s))
      | _ \<Rightarrow> s)"
| "step v s (ResizeEntries entries) =
     (if observerConnected s then
        (case familyOf v of
           RxFamily \<Rightarrow> fromResizeObserver entries s
         | SignalsFamily \<Rightarrow> lc_resizeCallback entries s
         | CssFamily \<Rightarrow> s
         | AnrFamily \<Rightarrow> s)
      else s)"
| "step v s (Elapse d) = (if familyOf v = RxFamily then rx_elapse d s else s)"
| "step v s Render =
     (if familyOf v = SignalsFamily \<and> \<not> destroyed s \<and> effectDirty s
      then lc_afterRenderEffect (s\<lparr>effectDirty := False\<rparr>)
      else s)"
| "step v s Destroy = (ngOnDestroy v s)\<lparr>destroyed := True\<rparr>"

fun run :: "variant \<Rightarrow> component \<Rightarrow> event list \<Rightarrow> component" where
  "run v s [] = s"
| "run v s (e # es) = run v (step v s e) es"

text \<open>A freshly constructed component; the argument is the bound input, if any.\<close>

definition init :: "string option \<Rightarrow> component" where
  "init d =
     \<lparr>isLoading = True, hasError = False, errorMessage = [], currentStep = Idle,
      dashboardId = d, destroyStopped = False, pipeSubscribed = False, phase = NotStarted,
      pending = None, lastEmitted = None, observerConnected = False, iframeSize = None,
      iframeEl = None, effectDirty = True, destroyed = False, mountIframes = [],
      stepLog = [], requests = [], embedCalls = [], writes = [], consoleErrors = []\<rparr>"

section \<open>Scenarios and invariants\<close>

text \<open>A 200 response whose body is \<open>{ token: tok }\<close>.\<close>

definition tokenResponse :: "string \<Rightarrow> event" where
  "tokenResponse tok = HttpResponse (HttpSuccess (JsonObject (Some tok)))"

text \<open>
  The sequence of values of \<open>currentStep\<close> a component is written to go through. The
  signal of the CSS page and of the afterNextRender page has no \<open>resize\<close> value.
\<close>

definition expectedSteps :: "variant \<Rightarrow> lifecycle list" where
  "expectedSteps v =
     (case familyOf v of
        RxFamily \<Rightarrow> [Token, Embed, Resize, Done]
      | SignalsFamily \<Rightarrow> [Token, Embed, Resize, Done]
      | CssFamily \<Rightarrow> [Token, Embed, Done]
      | AnrFamily \<Rightarrow> [Token, Embed, Done])"

text \<open>
  A run in which everything succeeds: the hooks run, the token arrives, the SDK inserts
  the iframe \<open>e\<close> and resolves, the observer reports the size \<open>r\<close>, the debounce window
  passes and Angular renders.
\<close>

definition successRun :: "string \<Rightarrow> elem \<Rightarrow> rect \<Rightarrow> event list" where
  "successRun tok e r =
     [OnInit, ViewInit, tokenResponse tok, SdkMount [e], EmbedSettled EmbedResolved,
      ResizeEntries [r], Elapse 100, Render]"

text \<open>
  A burst of observer callbacks: each pair is the entries of one callback and the
  milliseconds that pass after it.
\<close>

fun burstEvents :: "(rect list \<times> nat) list \<Rightarrow> event list" where
  "burstEvents [] = []"
| "burstEvents ((entries, gap) # b) = ResizeEntries entries # Elapse gap # burstEvents b"

text \<open>Every callback of the burst has an entry and is followed by less than 100 ms.\<close>

definition rapid :: "(rect list \<times> nat) list \<Rightarrow> bool" where
  "rapid b = list_all (\<lambda>(entries, gap). entries \<noteq> [] \<and> gap < 100) b"

text \<open>What a user or a test can see of a component.\<close>

definition observable ::
  "component \<Rightarrow>
     bool \<times> bool \<times> string \<times> lifecycle \<times> lifecycle list \<times> string list \<times> string list \<times>
     (elem \<times> rect) list" where
  "observable s =
     (isLoading s, hasError s, errorMessage s, currentStep s, stepLog s, requests s,
      embedCalls s, writes s)"

text \<open>No callback is waiting and no iframe handle is held.\<close>

definition halted :: "component \<Rightarrow> bool" where
  "halted s = (phase s = Closed \<and> iframeEl s = None)"

text \<open>How the log of exposed values relates to the phase of the activation.\<close>

definition logInv :: "variant \<Rightarrow> component \<Rightarrow> bool" where
  "logInv v s =
     (case phase s of
        NotStarted \<Rightarrow> stepLog s = [] \<and> currentStep s = Idle \<and> iframeEl s = None
      | AwaitToken \<Rightarrow> stepLog s = [Token] \<and> currentStep s = Token \<and> iframeEl s = None
      | AwaitEmbed c \<Rightarrow>
          stepLog s = [Token, Embed] \<and> currentStep s = Embed \<and> iframeEl s = None
      | Observing c \<Rightarrow>
          familyOf v = RxFamily \<and> iframeEl s = None \<and>
          (stepLog s = [Token, Embed, Resize] \<and> currentStep s = Resize \<or>
           stepLog s = [Token, Embed, Resize, Done] \<and> currentStep s = Done)
      | Finished \<Rightarrow>
          (case familyOf v of
             RxFamily \<Rightarrow> False
           | SignalsFamily \<Rightarrow>
               stepLog s = [Token, Embed, Resize] \<and> currentStep s = Resize \<or>
               stepLog s = [Token, Embed, Resize, Done] \<and> currentStep s = Done
           | CssFamily \<Rightarrow>
               stepLog s = [Token, Embed, Done] \<and> currentStep s = Done \<and> iframeEl s = None
           | AnrFamily \<Rightarrow>
               stepLog s = [Token, Embed, Done] \<and> currentStep s = Done \<and> iframeEl s = None)
      | Closed \<Rightarrow>
          prefix (stepLog s) (expectedSteps v) \<and> currentStep s = last (Idle # stepLog s) \<and>
          iframeEl s = None)"

text \<open>
  What holds of the resize machinery: only the RxJS family debounces, only the RxJS and
  signals families ever connect an observer, and once \<open>destroy$\<close> has fired the
  pipeline it guards holds nothing.
\<close>

definition teardownInv :: "variant \<Rightarrow> component \<Rightarrow> bool" where
  "teardownInv v s =
     (case familyOf v of
        RxFamily \<Rightarrow>
          (if destroyStopped s
           then destroyed s \<and> phase s = Closed \<and> \<not> observerConnected s \<and> pending s = None
           else True)
      | SignalsFamily \<Rightarrow> pending s = None
      | CssFamily \<Rightarrow> pending s = None \<and> \<not> observerConnected s
      | AnrFamily \<Rightarrow>
          pending s = None \<and> \<not> observerConnected s \<and>
          (if destroyStopped s then destroyed s \<and> phase s = Closed else True))"

section \<open>Properties\<close>

lemmas handler_defs =
  setCurrentStep_def falsy_def idOf_def getGuestToken_def querySelectorIframe_def
  missingIdentifier_def pipelineFailure_def beginTokenFetch_def invokeEmbed_def
  rx_startPipeline_def rx_ngAfterViewInit_def rx_embedResolved_def rx_resizeNext_def
  fromResizeObserver_def rx_applySize_def rx_debounceEmit_def rx_elapse_def
  rx_ngOnDestroy_def lc_initDashboard_def lc_tokenResumed_def lc_embedResumed_def
  lc_resizeCallback_def lc_afterRenderEffect_def lc_onDestroy_def css_ngAfterViewInit_def
  css_embedResolved_def css_ngOnDestroy_def anr_ngOnInit_def anr_afterNextRender_def
  anr_tokenNext_def anr_ngOnDestroy_def ngOnDestroy_def

lemma sameSize_eq [simp]: "sameSize a b \<longleftrightarrow> a = b"
  by (cases a; cases b) (simp add: sameSize_def)

lemma fold_resizeNext:
  "fold rx_resizeNext entries s =
     (if entries = [] then s else s\<lparr>pending := Some (last entries, 100)\<rparr>)"
  by (induction entries arbitrary: s) (simp_all add: rx_resizeNext_def)

lemma rx_variants: "familyOf v = RxFamily \<Longrightarrow> v = RxjsPage \<or> v = DashboardRx"
  by (cases v) simp_all

lemma signals_variants:
  "familyOf v = SignalsFamily \<Longrightarrow> v = LifecyclePage \<or> v = DashboardSignals"
  by (cases v) simp_all

lemma run_append: "run v s (es @ es') = run v (run v s es) es'"
  by (induction es arbitrary: s) simp_all

lemma burstEvents_append: "burstEvents (b @ b') = burstEvents b @ burstEvents b'"
  by (induction b rule: burstEvents.induct) simp_all

subsection \<open>A halted component stays as it is\<close>

lemma halted_step:
  "halted s \<Longrightarrow> halted (step v s e) \<and> observable (step v s e) = observable s"
  apply (cases e; cases v)
  apply (simp_all add: halted_def observable_def handler_defs fold_resizeNext
      split: list.splits option.splits)
  done

lemma halted_run:
  "halted s \<Longrightarrow> halted (run v s es) \<and> observable (run v s es) = observable s"
  by (induction es arbitrary: s) (simp_all add: halted_step)

subsection \<open>The log follows the phase\<close>

lemma logInv_init: "logInv v (init d)"
  by (simp add: logInv_def init_def)

lemma logInv_step: "logInv v s \<Longrightarrow> logInv v (step v s e)"
  apply (cases e; cases v; cases "phase s")
  apply (simp_all add: logInv_def expectedSteps_def handler_defs fold_resizeNext Let_def
      split: list.splits sum.splits embed_result.splits option.splits prod.splits)
  apply auto
  done

lemma logInv_run: "logInv v s \<Longrightarrow> logInv v (run v s es)"
  by (induction es arbitrary: s) (simp_all add: logInv_step)

lemma logInv_prefix: "logInv v s \<Longrightarrow> prefix (stepLog s) (expectedSteps v)"
  by (cases v; cases "phase s") (auto simp: logInv_def expectedSteps_def)

lemma successRun_log:
  assumes "\<not> falsy d"
  shows "stepLog (run v (init d) (successRun tok e r)) = expectedSteps v"
  using assms
  by (cases v; cases d)
     (simp_all add: successRun_def tokenResponse_def init_def handler_defs fold_resizeNext
        Let_def expectedSteps_def)

text \<open>
  C1, as amended. With an identifier that is not missing, a token that arrives and an
  embed that resolves, the exposed state of the RxJS and signals components goes through
  token, embed, resize and, once the first observed size is applied, done; that of the
  CSS page and of the afterNextRender page goes through token, embed, done (their signal
  has no resize value). Whatever the events and their order, the values exposed so far
  are a prefix of the component's sequence: none is skipped, none comes out of order.
\<close>

theorem lifecycle_sequence:
  "prefix (stepLog (run v (init d) es)) (expectedSteps v) \<and>
   (\<not> falsy d \<longrightarrow> stepLog (run v (init d) (successRun tok e r)) = expectedSteps v)"
proof
  have "logInv v (run v (init d) es)"
    by (rule logInv_run) (rule logInv_init)
  then show "prefix (stepLog (run v (init d) es)) (expectedSteps v)"
    by (rule logInv_prefix)
next
  show "\<not> falsy d \<longrightarrow> stepLog (run v (init d) (successRun tok e r)) = expectedSteps v"
    by (simp add: successRun_log)
qed

text \<open>
  The theorem of C1 at the RxJS \<open>DashboardComponent\<close> with the identifier of \<open>App\<close>: the
  whole sequence on the successful run, a prefix of it when the component is destroyed
  while the request is in flight.
\<close>

theorem lifecycle_sequence_witness:
  "\<not> falsy (Some ''abbb00fa-f7c9-4162-9c88-4a1ab1af1998'') \<and>
   stepLog (run DashboardRx (init (Some ''abbb00fa-f7c9-4162-9c88-4a1ab1af1998''))
      (successRun ''tok123'' 1 \<lparr>width = 800, height = 600\<rparr>)) = [Token, Embed, Resize, Done] \<and>
   prefix (stepLog (run DashboardRx (init (Some ''abbb00fa-f7c9-4162-9c88-4a1ab1af1998''))
      [ViewInit, Destroy, tokenResponse ''tok123''])) [Token, Embed, Resize, Done]"
  using lifecycle_sequence [of DashboardRx "Some ''abbb00fa-f7c9-4162-9c88-4a1ab1af1998''"
      "[ViewInit, Destroy, tokenResponse ''tok123'']" "''tok123''" 1
      "\<lparr>width = 800, height = 600\<rparr>"]
  by (simp add: falsy_def expectedSteps_def)

text \<open>
  C1 as stated fails on the afterNextRender page: on the successful run its state goes
  from embed straight to done.
\<close>

theorem lifecycle_sequence_counterexample:
  "stepLog (run AfterNextRenderPage (init None)
      (successRun ''tok123'' 1 \<lparr>width = 800, height = 600\<rparr>)) = [Token, Embed, Done] \<and>
   stepLog (run AfterNextRenderPage (init None)
      (successRun ''tok123'' 1 \<lparr>width = 800, height = 600\<rparr>)) \<noteq> [Token, Embed, Resize, Done]"
  by (simp add: successRun_def init_def tokenResponse_def handler_defs Let_def)

subsection \<open>Teardown\<close>

lemma teardownInv_init: "teardownInv v (init d)"
  by (cases v) (simp_all add: teardownInv_def init_def)

lemma teardownInv_step: "teardownInv v s \<Longrightarrow> teardownInv v (step v s e)"
  apply (cases e; cases v; cases "phase s")
  apply (simp_all add: teardownInv_def handler_defs fold_resizeNext Let_def
      split: list.splits sum.splits embed_result.splits option.splits prod.splits if_splits)
  done

lemma teardownInv_run: "teardownInv v s \<Longrightarrow> teardownInv v (run v s es)"
  by (induction es arbitrary: s) (simp_all add: teardownInv_step)

lemma destroy_twice: "step v (step v s Destroy) Destroy = step v s Destroy"
  by (cases v) (simp_all add: handler_defs Let_def)

lemma destroy_releases:
  assumes "teardownInv v s"
  shows "mountIframes (step v s Destroy) = [] \<and> \<not> observerConnected (step v s Destroy) \<and>
         pending (step v s Destroy) = None"
  using assms by (cases v) (simp_all add: teardownInv_def handler_defs Let_def split: if_splits)

lemma destroy_halts:
  assumes "familyOf v = RxFamily \<or> familyOf v = AnrFamily" "logInv v s" "teardownInv v s"
  shows "halted (step v s Destroy)"
  using assms
  by (cases v; cases "phase s")
     (auto simp: halted_def logInv_def teardownInv_def handler_defs Let_def split: if_splits)

text \<open>
  Where the pipeline ends in \<open>takeUntil(destroy$)\<close> (RxJS family, afterNextRender page),
  nothing that arrives after teardown changes what can be observed: no request, no embed
  call, no style write, no change of a signal.
\<close>

lemma takeUntil_drops_late_results:
  assumes "familyOf v = RxFamily \<or> familyOf v = AnrFamily"
  shows "observable (run v (run v (init d) es) (Destroy # es')) =
         observable (step v (run v (init d) es) Destroy)"
proof -
  have "logInv v (run v (init d) es)" "teardownInv v (run v (init d) es)"
    by (simp_all add: logInv_run logInv_init teardownInv_run teardownInv_init)
  with assms have "halted (step v (run v (init d) es) Destroy)"
    by (rule destroy_halts)
  then show ?thesis by (simp add: halted_run)
qed

text \<open>
  C2 fails on the lifecycle page, whose \<open>onDestroy\<close> callback does not reach the pending
  \<open>await\<close>: destroyed while the request is in flight, the component has called no embed
  and holds no observer; when the token arrives afterwards it calls \<open>embedDashboard\<close>, and
  when that resolves it connects a new observer, which nothing disconnects.
\<close>

theorem lifecycle_teardown_does_not_cancel:
  "(let s1 = run LifecyclePage (init None) [ViewInit, Destroy];
        s2 = run LifecyclePage s1
               [tokenResponse ''tok123'', SdkMount [1], EmbedSettled EmbedResolved]
    in destroyed s1 \<and> embedCalls s1 = [] \<and> \<not> observerConnected s1 \<and>
       embedCalls s2 = [pageDashboardId] \<and> observerConnected s2 \<and>
       stepLog s2 = [Token, Embed, Resize])"
  by (simp add: init_def tokenResponse_def handler_defs Let_def)

text \<open>
  C8. Teardown of any component, in any state it can reach, leaves the mount container
  empty, no observer connected and no debounced value pending; a second teardown changes
  nothing.
\<close>

theorem teardown_idempotent:
  "(let s = run v (init d) es; s1 = step v s Destroy; s2 = step v s1 Destroy
    in s2 = s1 \<and> mountIframes s1 = [] \<and> \<not> observerConnected s1 \<and> pending s1 = None)"
proof -
  have "teardownInv v (run v (init d) es)"
    by (rule teardownInv_run) (rule teardownInv_init)
  then show ?thesis
    using destroy_releases [of v "run v (init d) es"]
    by (simp del: step.simps add: Let_def destroy_twice)
qed

subsection \<open>Coalescing of resize notifications\<close>

lemma rapid_burst_run:
  assumes "familyOf v = RxFamily" "phase s = Observing c" "observerConnected s" "rapid b"
  shows "run v s (burstEvents b) =
         (if b = [] then s
          else s\<lparr>pending := Some (last (fst (last b)), 100 - snd (last b))\<rparr>)"
  using assms
proof (induction b arbitrary: s rule: burstEvents.induct)
  case 1
  then show ?case by simp
next
  case (2 entries gap b)
  let ?s1 = "s\<lparr>pending := Some (last entries, 100 - gap)\<rparr>"
  from "2.prems" have first: "run v s [ResizeEntries entries, Elapse gap] = ?s1"
    by (simp add: rapid_def handler_defs fold_resizeNext)
  from "2.prems" have "run v ?s1 (burstEvents b) =
      (if b = [] then ?s1 else ?s1\<lparr>pending := Some (last (fst (last b)), 100 - snd (last b))\<rparr>)"
    by (intro "2.IH") (simp_all add: rapid_def)
  with first show ?case by (simp del: step.simps)
qed

text \<open>
  C3, as amended. In the RxJS family, once a size has been applied to the located iframe:
  after callbacks that each follow the previous one by less than 100 ms, and 100 ms of
  quiet after the last, at most one size has been written, which is fewer than the
  callbacks as soon as there are two of them; nothing is written when the last size
  reported equals the size applied last; and the size written last is the last size
  reported.
\<close>

theorem debounce_coalesces_burst:
  assumes "familyOf v = RxFamily" "phase s = Observing c" "observerConnected s"
    and "iframe c = Some e"
    and "writes s \<noteq> []" "lastEmitted s = Some (snd (last (writes s)))"
    and "rapid b" "entries \<noteq> []" "100 \<le> w"
  shows "(let s' = run v s (burstEvents (b @ [(entries, w)]))
          in writes s' = (if snd (last (writes s)) = last entries then writes s
                          else writes s @ [(e, last entries)]) \<and>
             snd (last (writes s')) = last entries \<and>
             pending s' = None \<and> phase s' = Observing c \<and>
             length (writes s') - length (writes s) \<le> 1 \<and>
             (b \<noteq> [] \<longrightarrow> length (writes s') - length (writes s) < length (b @ [(entries, w)])))"
proof -
  define s1 where "s1 = run v s (burstEvents b)"
  have s1: "s1 = (if b = [] then s
          else s\<lparr>pending := Some (last (fst (last b)), 100 - snd (last b))\<rparr>)"
    unfolding s1_def using assms(1,2,3,7) by (rule rapid_burst_run)
  have split: "run v s (burstEvents (b @ [(entries, w)])) = run v s1 [ResizeEntries entries, Elapse w]"
    by (simp add: burstEvents_append run_append s1_def del: step.simps)
  show ?thesis
    unfolding split Let_def using assms s1
    by (cases "b = []") (simp_all add: handler_defs fold_resizeNext Let_def)
qed

text \<open>
  The theorem of C3 on the RxJS page, after a first paint at 640 x 480: two callbacks
  50 ms apart, one write.
\<close>

theorem debounce_coalesces_burst_witness:
  "(let s = run RxjsPage (init None)
              [ViewInit, tokenResponse ''tok123'', SdkMount [1], EmbedSettled EmbedResolved,
               ResizeEntries [\<lparr>width = 640, height = 480\<rparr>], Elapse 100];
        c = \<lparr>ctxDashboardId = rxjsPageDashboardId, guestToken = Some ''tok123'', iframe = Some 1\<rparr>;
        b = [([\<lparr>width = 800, height = 600\<rparr>], 50)];
        s' = run RxjsPage s (burstEvents (b @ [([\<lparr>width = 801, height = 600\<rparr>], 100)]))
    in familyOf RxjsPage = RxFamily \<and> phase s = Observing c \<and> observerConnected s \<and>
       writes s = [(1, \<lparr>width = 640, height = 480\<rparr>)] \<and>
       lastEmitted s = Some \<lparr>width = 640, height = 480\<rparr> \<and> rapid b \<and>
       writes s' = [(1, \<lparr>width = 640, height = 480\<rparr>), (1, \<lparr>width = 801, height = 600\<rparr>)] \<and>
       length (writes s') - length (writes s) < length (b @ [([\<lparr>width = 801, height = 600\<rparr>], 100)]))"
  using debounce_coalesces_burst [of RxjsPage
      "run RxjsPage (init None)
              [ViewInit, tokenResponse ''tok123'', SdkMount [1], EmbedSettled EmbedResolved,
               ResizeEntries [\<lparr>width = 640, height = 480\<rparr>], Elapse 100]"
      "\<lparr>ctxDashboardId = rxjsPageDashboardId, guestToken = Some ''tok123'', iframe = Some 1\<rparr>"
      1 "[([\<lparr>width = 800, height = 600\<rparr>], 50)]" "[\<lparr>width = 801, height = 600\<rparr>]" 100]
  by (simp add: init_def tokenResponse_def handler_defs fold_resizeNext Let_def rapid_def)

text \<open>
  C3 as stated fails in the signals family, which has neither \<open>debounceTime\<close> nor a
  comparison with the size applied last: the effect writes at every render that follows a
  callback. After first paint, two callbacks give two writes.
\<close>

theorem signals_write_per_notification_counterexample:
  "(let s = run LifecyclePage (init None)
              [ViewInit, Render, tokenResponse ''tok123'', SdkMount [1],
               EmbedSettled EmbedResolved, ResizeEntries [\<lparr>width = 640, height = 480\<rparr>], Render];
        s' = run LifecyclePage s
               [ResizeEntries [\<lparr>width = 800, height = 600\<rparr>], Render,
                ResizeEntries [\<lparr>width = 801, height = 600\<rparr>], Render]
    in currentStep s = Done \<and>
       writes s' = writes s @ [(1, \<lparr>width = 800, height = 600\<rparr>), (1, \<lparr>width = 801, height = 600\<rparr>)] \<and>
       \<not> length (writes s') - length (writes s) < 2)"
  by (simp add: init_def tokenResponse_def handler_defs Let_def)

subsection \<open>The scenario of the specification\<close>

text \<open>
  C4. For the identifier \<open>abbb00fa-f7c9-4162-9c88-4a1ab1af1998\<close>, the response
  \<open>{ token: "tok123" }\<close>, an embed that inserts one iframe and resolves, and the sizes
  800 x 600 and 801 x 600 reported at most 50 ms apart, the RxJS components write exactly
  once, 801 x 600, and end in \<open>done\<close>.
\<close>

theorem scenario_single_write:
  assumes "familyOf v = RxFamily" "gap \<le> 50" "100 \<le> w"
  shows "(let s = run v (init (Some ''abbb00fa-f7c9-4162-9c88-4a1ab1af1998''))
                    [ViewInit, tokenResponse ''tok123'', SdkMount [e], EmbedSettled EmbedResolved,
                     ResizeEntries [\<lparr>width = 800, height = 600\<rparr>], Elapse gap,
                     ResizeEntries [\<lparr>width = 801, height = 600\<rparr>], Elapse w]
          in requests s =
               [''http://localhost:3000/superset/guest-token/abbb00fa-f7c9-4162-9c88-4a1ab1af1998''] \<and>
             embedCalls s = [''abbb00fa-f7c9-4162-9c88-4a1ab1af1998''] \<and>
             writes s = [(e, \<lparr>width = 801, height = 600\<rparr>)] \<and>
             stepLog s = [Token, Embed, Resize, Done] \<and> currentStep s = Done \<and>
             \<not> hasError s \<and> \<not> isLoading s)"
proof -
  from assms(1) consider "v = RxjsPage" | "v = DashboardRx"
    using rx_variants by blast
  then show ?thesis
  proof cases
    case 1
    with assms(2,3) show ?thesis
      by (simp add: init_def tokenResponse_def handler_defs fold_resizeNext Let_def bffUrl_def
          rxjsPageDashboardId_def)
  next
    case 2
    with assms(2,3) show ?thesis
      by (simp add: init_def tokenResponse_def handler_defs fold_resizeNext Let_def bffUrl_def)
  qed
qed

text \<open>
  The theorem of C4 on the RxJS page, the sizes 50 ms apart.
\<close>

theorem scenario_single_write_witness:
  "familyOf RxjsPage = RxFamily \<and> (50::nat) \<le> 50 \<and> (100::nat) \<le> 100 \<and>
   writes (run RxjsPage (init (Some ''abbb00fa-f7c9-4162-9c88-4a1ab1af1998''))
             [ViewInit, tokenResponse ''tok123'', SdkMount [1], EmbedSettled EmbedResolved,
              ResizeEntries [\<lparr>width = 800, height = 600\<rparr>], Elapse 50,
              ResizeEntries [\<lparr>width = 801, height = 600\<rparr>], Elapse 100])
     = [(1, \<lparr>width = 801, height = 600\<rparr>)] \<and>
   currentStep (run RxjsPage (init (Some ''abbb00fa-f7c9-4162-9c88-4a1ab1af1998''))
             [ViewInit, tokenResponse ''tok123'', SdkMount [1], EmbedSettled EmbedResolved,
              ResizeEntries [\<lparr>width = 800, height = 600\<rparr>], Elapse 50,
              ResizeEntries [\<lparr>width = 801, height = 600\<rparr>], Elapse 100]) = Done"
  using scenario_single_write [of RxjsPage 50 100 1] by (simp add: Let_def del: run.simps)

subsection \<open>Missing identifier\<close>

lemma missingIdentifier_halted:
  assumes "v = DashboardRx \<or> v = DashboardSignals" "falsy d"
  shows "halted (step v (init d) ViewInit) \<and>
         observable (step v (init d) ViewInit) =
           (False, True, missingIdMessage, Idle, [], [], [], [])"
  using assms by (auto simp: halted_def observable_def init_def handler_defs)

text \<open>
  C5. A \<open>DashboardComponent\<close> (either version) activated without an identifier sets the
  error signals with the missing-identifier message at once, and neither then nor after
  any later events has it requested a token, called the embed or written a size.
\<close>

theorem missing_identifier_fails_fast:
  assumes "v = DashboardRx \<or> v = DashboardSignals" "falsy d"
  shows "(let s = run v (init d) (ViewInit # es)
          in hasError s \<and> errorMessage s = missingIdMessage \<and> \<not> isLoading s \<and>
             currentStep s = Idle \<and> requests s = [] \<and> embedCalls s = [] \<and> writes s = [])"
proof -
  from assms have h: "halted (step v (init d) ViewInit)"
    and o: "observable (step v (init d) ViewInit) = (False, True, missingIdMessage, Idle, [], [], [], [])"
    using missingIdentifier_halted by blast+
  from h have "observable (run v (step v (init d) ViewInit) es) = observable (step v (init d) ViewInit)"
    by (simp add: halted_run)
  with o show ?thesis by (simp add: observable_def Let_def del: step.simps)
qed

text \<open>
  The theorem of C5 at the signals version with the empty string as identifier.
\<close>

theorem missing_identifier_fails_fast_witness:
  "falsy (Some []) \<and>
   (let s = run DashboardSignals (init (Some [])) [ViewInit, Render, Destroy]
    in hasError s \<and> errorMessage s = missingIdMessage \<and> \<not> isLoading s \<and>
       requests s = [] \<and> embedCalls s = [])"
  using missing_identifier_fails_fast [of DashboardSignals "Some []" "[Render, Destroy]"]
  by (simp add: falsy_def Let_def del: run.simps)

subsection \<open>Failure of the token request\<close>

lemma token_failure_halted:
  assumes "responseToken res = Inl cause" "\<not> falsy d"
  shows "halted (step v (run v (init d) [OnInit, ViewInit]) (HttpResponse res)) \<and>
         observable (step v (run v (init d) [OnInit, ViewInit]) (HttpResponse res)) =
           (False, True, loadFailedMessage, Token, [Token],
            requests (run v (init d) [OnInit, ViewInit]), [], []) \<and>
         consoleErrors (step v (run v (init d) [OnInit, ViewInit]) (HttpResponse res)) = [cause] \<and>
         \<not> hasError (run v (init d) [OnInit, ViewInit]) \<and>
         stepLog (run v (init d) [OnInit, ViewInit]) = [Token]"
  using assms
  by (cases v; cases d)
     (simp_all add: halted_def observable_def init_def handler_defs)

text \<open>
  C6, as amended. When the token request ends in an error notification (the HTTP client
  reports a network error, a non-2xx status or a body that is not JSON, or the body is
  \<open>null\<close>), every component has exposed \<open>token\<close> and then the error, with the one
  fixed message whatever the cause, which is only logged; the embed is not called then
  and nothing observable changes afterwards.
\<close>

theorem token_failure_sequence:
  assumes "responseToken res = Inl cause" "\<not> falsy d"
  shows "(let s0 = run v (init d) [OnInit, ViewInit];
              s = step v s0 (HttpResponse res);
              s' = run v s es
          in stepLog s0 = [Token] \<and> \<not> hasError s0 \<and>
             stepLog s = [Token] \<and> hasError s \<and> \<not> isLoading s \<and>
             errorMessage s = loadFailedMessage \<and> consoleErrors s = [cause] \<and>
             embedCalls s = [] \<and> observable s' = observable s)"
proof -
  let ?a = "run v (init d) [OnInit, ViewInit]"
  let ?b = "step v ?a (HttpResponse res)"
  from assms have facts:
    "halted ?b"
    "observable ?b = (False, True, loadFailedMessage, Token, [Token], requests ?a, [], [])"
    "consoleErrors ?b = [cause]" "\<not> hasError ?a" "stepLog ?a = [Token]"
    using token_failure_halted [of res cause d v] by blast+
  from facts(1) have "observable (run v ?b es) = observable ?b"
    by (simp add: halted_run)
  with facts show ?thesis
    by (simp add: observable_def Let_def del: step.simps run.simps)
qed

text \<open>
  The theorem of C6 at the RxJS \<open>DashboardComponent\<close> and a 503 response.
\<close>

theorem token_failure_sequence_witness:
  "responseToken (HttpFailure ''503 Service Unavailable'') = Inl ''503 Service Unavailable'' \<and>
   \<not> falsy (Some ''abbb00fa-f7c9-4162-9c88-4a1ab1af1998'') \<and>
   (let s = run DashboardRx (init (Some ''abbb00fa-f7c9-4162-9c88-4a1ab1af1998''))
              [OnInit, ViewInit, HttpResponse (HttpFailure ''503 Service Unavailable'')]
    in stepLog s = [Token] \<and> hasError s \<and> errorMessage s = loadFailedMessage \<and>
       embedCalls s = [])"
  using token_failure_sequence [of "HttpFailure ''503 Service Unavailable''"
      "''503 Service Unavailable''" "Some ''abbb00fa-f7c9-4162-9c88-4a1ab1af1998''" DashboardRx "[]"]
  by (simp add: Let_def falsy_def del: step.simps)

text \<open>
  C6 as stated fails for a malformed body that still parses: \<open>getGuestToken\<close> does not
  check the body, so from the JSON object \<open>{}\<close> it emits \<open>undefined\<close>, and the RxJS
  page goes on to \<open>embed\<close> and calls \<open>embedDashboard\<close>.
\<close>

theorem malformed_body_counterexample:
  "(let s = run RxjsPage (init None)
              [OnInit, ViewInit, HttpResponse (HttpSuccess (JsonObject None))]
    in stepLog s = [Token, Embed] \<and> embedCalls s = [rxjsPageDashboardId] \<and> \<not> hasError s)"
  by (simp add: init_def handler_defs Let_def)

subsection \<open>Applying a size\<close>

text \<open>
  The last \<open>tap\<close> of the RxJS family, reached by a size that differs from the one emitted
  last once its 100 ms have passed: \<open>done\<close> is set whether or not the context holds an
  iframe; the size is written only if it does.
\<close>

lemma rx_resize_application:
  assumes "familyOf v = RxFamily" "phase s = Observing c" "observerConnected s"
    and "entries \<noteq> []" "100 \<le> w" "lastEmitted s \<noteq> Some (last entries)"
  shows "(let s' = run v s [ResizeEntries entries, Elapse w]
          in currentStep s' = Done \<and> phase s' = Observing c \<and> observerConnected s' \<and>
             hasError s' = hasError s \<and> lastEmitted s' = Some (last entries) \<and>
             writes s' = writes s @
               (case iframe c of None \<Rightarrow> [] | Some e \<Rightarrow> [(e, last entries)]))"
  using assms
  by (cases "lastEmitted s"; cases "iframe c")
     (simp_all add: handler_defs fold_resizeNext Let_def)

text \<open>
  The effect of the signals family, at the render that follows a callback: \<open>done\<close> is set
  together with the write, inside the guard; without an iframe neither happens.
\<close>

lemma effect_application_sets_done:
  assumes "familyOf v = SignalsFamily" "observerConnected s" "\<not> destroyed s"
  shows "(let s' = run v s [ResizeEntries (r # rs), Render]
          in writes s' = writes s @ (case iframeEl s of None \<Rightarrow> [] | Some e \<Rightarrow> [(e, r)]) \<and>
             currentStep s' = (case iframeEl s of None \<Rightarrow> currentStep s | Some e \<Rightarrow> Done) \<and>
             stepLog s' =
               (case iframeEl s of
                  None \<Rightarrow> stepLog s
                | Some e \<Rightarrow> if currentStep s = Done then stepLog s else stepLog s @ [Done]) \<and>
             phase s' = phase s \<and> observerConnected s' \<and> hasError s' = hasError s)"
proof -
  from assms(1) consider "v = LifecyclePage" | "v = DashboardSignals"
    using signals_variants by blast
  then show ?thesis
    using assms(2,3)
    by cases (simp_all add: handler_defs Let_def split: option.splits)
qed

text \<open>
  C7, as amended. In any state in which the observer is connected, before or after
  \<open>done\<close>, the next qualifying size is applied and observation goes on:
  \<^item> in the RxJS family a reported size that differs from the one emitted last is, once
    100 ms have passed, written to the iframe held in the context, and the state becomes
    \<open>done\<close>; with no iframe in the context nothing is written and no error is set, but the
    state becomes \<open>done\<close> all the same; the stream stays subscribed;
  \<^item> in the signals family the size of a callback is, at the next render, written to the
    iframe held in \<open>iframeEl\<close>, and the state becomes \<open>done\<close>; with no iframe nothing is
    written, no error is set and the state stays where it is; the observer stays
    connected.
\<close>

theorem resize_application_sets_done:
  "(familyOf v = RxFamily \<and> phase s = Observing c \<and> observerConnected s \<and> entries \<noteq> [] \<and>
    100 \<le> w \<and> lastEmitted s \<noteq> Some (last entries) \<longrightarrow>
      (let s' = run v s [ResizeEntries entries, Elapse w]
       in currentStep s' = Done \<and> phase s' = Observing c \<and> observerConnected s' \<and>
          hasError s' = hasError s \<and> lastEmitted s' = Some (last entries) \<and>
          writes s' = writes s @
            (case iframe c of None \<Rightarrow> [] | Some e \<Rightarrow> [(e, last entries)]))) \<and>
   (familyOf v = SignalsFamily \<and> observerConnected s \<and> \<not> destroyed s \<longrightarrow>
      (let s' = run v s [ResizeEntries (r # rs), Render]
       in writes s' = writes s @ (case iframeEl s of None \<Rightarrow> [] | Some e \<Rightarrow> [(e, r)]) \<and>
          currentStep s' = (case iframeEl s of None \<Rightarrow> currentStep s | Some e \<Rightarrow> Done) \<and>
          stepLog s' =
            (case iframeEl s of
               None \<Rightarrow> stepLog s
             | Some e \<Rightarrow> if currentStep s = Done then stepLog s else stepLog s @ [Done]) \<and>
          phase s' = phase s \<and> observerConnected s' \<and> hasError s' = hasError s))"
proof (intro conjI impI)
  assume "familyOf v = RxFamily \<and> phase s = Observing c \<and> observerConnected s \<and>
    entries \<noteq> [] \<and> 100 \<le> w \<and> lastEmitted s \<noteq> Some (last entries)"
  then show "let s' = run v s [ResizeEntries entries, Elapse w]
       in currentStep s' = Done \<and> phase s' = Observing c \<and> observerConnected s' \<and>
          hasError s' = hasError s \<and> lastEmitted s' = Some (last entries) \<and>
          writes s' = writes s @
            (case iframe c of None \<Rightarrow> [] | Some e \<Rightarrow> [(e, last entries)])"
    using rx_resize_application [of v s c entries w] by blast
next
  assume "familyOf v = SignalsFamily \<and> observerConnected s \<and> \<not> destroyed s"
  then show "let s' = run v s [ResizeEntries (r # rs), Render]
       in writes s' = writes s @ (case iframeEl s of None \<Rightarrow> [] | Some e \<Rightarrow> [(e, r)]) \<and>
          currentStep s' = (case iframeEl s of None \<Rightarrow> currentStep s | Some e \<Rightarrow> Done) \<and>
          stepLog s' =
            (case iframeEl s of
               None \<Rightarrow> stepLog s
             | Some e \<Rightarrow> if currentStep s = Done then stepLog s else stepLog s @ [Done]) \<and>
          phase s' = phase s \<and> observerConnected s' \<and> hasError s' = hasError s"
    using effect_application_sets_done [of v s r rs] by blast
qed

text \<open>
  The theorem of C7 in four reachable states: the RxJS page already at \<open>done\<close> with an
  iframe (the next size is applied as well) and at \<open>resize\<close> without one (\<open>done\<close>, no
  write); the lifecycle page already at \<open>done\<close> with an iframe (the next size is applied
  as well) and at \<open>resize\<close> without one (still \<open>resize\<close>, no write).
\<close>

theorem resize_application_sets_done_witness:
  "(let s = run RxjsPage (init None)
              [ViewInit, tokenResponse ''tok123'', SdkMount [1], EmbedSettled EmbedResolved,
               ResizeEntries [\<lparr>width = 640, height = 480\<rparr>], Elapse 100];
        c = \<lparr>ctxDashboardId = rxjsPageDashboardId, guestToken = Some ''tok123'', iframe = Some 1\<rparr>;
        s' = run RxjsPage s [ResizeEntries [\<lparr>width = 800, height = 600\<rparr>], Elapse 100];
        n = run RxjsPage (init None)
              [ViewInit, tokenResponse ''tok123'', EmbedSettled EmbedResolved];
        cn = \<lparr>ctxDashboardId = rxjsPageDashboardId, guestToken = Some ''tok123'', iframe = None\<rparr>;
        n' = run RxjsPage n [ResizeEntries [\<lparr>width = 800, height = 600\<rparr>], Elapse 100];
        t = run LifecyclePage (init None)
              [ViewInit, Render, tokenResponse ''tok123'', SdkMount [1],
               EmbedSettled EmbedResolved, ResizeEntries [\<lparr>width = 640, height = 480\<rparr>], Render];
        t' = run LifecyclePage t [ResizeEntries [\<lparr>width = 800, height = 600\<rparr>], Render];
        u = run LifecyclePage (init None)
              [ViewInit, Render, tokenResponse ''tok123'', EmbedSettled EmbedResolved];
        u' = run LifecyclePage u [ResizeEntries [\<lparr>width = 800, height = 600\<rparr>], Render]
    in familyOf RxjsPage = RxFamily \<and> phase s = Observing c \<and> observerConnected s \<and>
       currentStep s = Done \<and> lastEmitted s \<noteq> Some \<lparr>width = 800, height = 600\<rparr> \<and>
       currentStep s' = Done \<and> phase s' = Observing c \<and>
       writes s' = [(1, \<lparr>width = 640, height = 480\<rparr>), (1, \<lparr>width = 800, height = 600\<rparr>)] \<and>
       phase n = Observing cn \<and> observerConnected n \<and> currentStep n = Resize \<and>
       currentStep n' = Done \<and> writes n' = [] \<and> \<not> hasError n' \<and>
       familyOf LifecyclePage = SignalsFamily \<and> observerConnected t \<and> \<not> destroyed t \<and>
       currentStep t = Done \<and> iframeEl t = Some 1 \<and> currentStep t' = Done \<and>
       writes t' = [(1, \<lparr>width = 640, height = 480\<rparr>), (1, \<lparr>width = 800, height = 600\<rparr>)] \<and>
       observerConnected u \<and> \<not> destroyed u \<and> iframeEl u = None \<and> currentStep u = Resize \<and>
       currentStep u' = Resize \<and> writes u' = [] \<and> \<not> hasError u')"
  using
    resize_application_sets_done [of RxjsPage
      "run RxjsPage (init None)
              [ViewInit, tokenResponse ''tok123'', SdkMount [1], EmbedSettled EmbedResolved,
               ResizeEntries [\<lparr>width = 640, height = 480\<rparr>], Elapse 100]"
      "\<lparr>ctxDashboardId = rxjsPageDashboardId, guestToken = Some ''tok123'', iframe = Some 1\<rparr>"
      "[\<lparr>width = 800, height = 600\<rparr>]" 100]
    resize_application_sets_done [of RxjsPage
      "run RxjsPage (init None)
              [ViewInit, tokenResponse ''tok123'', EmbedSettled EmbedResolved]"
      "\<lparr>ctxDashboardId = rxjsPageDashboardId, guestToken = Some ''tok123'', iframe = None\<rparr>"
      "[\<lparr>width = 800, height = 600\<rparr>]" 100]
    resize_application_sets_done [of LifecyclePage
      "run LifecyclePage (init None)
              [ViewInit, Render, tokenResponse ''tok123'', SdkMount [1],
               EmbedSettled EmbedResolved, ResizeEntries [\<lparr>width = 640, height = 480\<rparr>], Render]"
      _ _ _ "\<lparr>width = 800, height = 600\<rparr>" "[]"]
    resize_application_sets_done [of LifecyclePage
      "run LifecyclePage (init None)
              [ViewInit, Render, tokenResponse ''tok123'', EmbedSettled EmbedResolved]"
      _ _ _ "\<lparr>width = 800, height = 600\<rparr>" "[]"]
  by (simp add: init_def tokenResponse_def handler_defs fold_resizeNext Let_def)

text \<open>
  C7 as stated fails on the RxJS page when the SDK has inserted no iframe: the first size
  that reaches the resize step is written nowhere, yet the state goes from \<open>resize\<close> to
  \<open>done\<close>. There has been no application, and the step was not a no-op.
\<close>

theorem done_without_application_counterexample:
  "(let s = run RxjsPage (init None)
              [ViewInit, tokenResponse ''tok123'', EmbedSettled EmbedResolved];
        s' = run RxjsPage s [ResizeEntries [\<lparr>width = 800, height = 600\<rparr>], Elapse 100]
    in querySelectorIframe s = None \<and> currentStep s = Resize \<and> writes s = [] \<and>
       currentStep s' = Done \<and> stepLog s' = [Token, Embed, Resize, Done] \<and> writes s' = [] \<and>
       s' \<noteq> s)"
  by (simp add: init_def tokenResponse_def handler_defs fold_resizeNext Let_def)

subsection \<open>The iframe handle\<close>

text \<open>
  C9, as amended. The RxJS and signals components query the mount for the iframe once,
  when the embed call resolves, and keep that handle (\<open>ctx.iframe\<close>, \<open>iframeEl\<close>): a size
  reported later is written to the element found then, whatever the SDK has put under the
  mount in the meantime.
\<close>

theorem iframe_handle_cached_at_embed:
  assumes "familyOf v = RxFamily \<or> familyOf v = SignalsFamily"
    and "phase s = AwaitEmbed c" "\<not> destroyed s" "lastEmitted s = None"
  shows "(let s1 = step v s (EmbedSettled EmbedResolved);
              s2 = run v s1 [SdkMount m, ResizeEntries [r], Elapse 100, Render]
          in writes s2 = writes s @
               (case querySelectorIframe s of None \<Rightarrow> [] | Some e \<Rightarrow> [(e, r)]))"
proof -
  from assms(1) consider "v = RxjsPage" | "v = DashboardRx" | "v = LifecyclePage"
    | "v = DashboardSignals"
    using rx_variants signals_variants by blast
  then show ?thesis
    using assms(2-)
    by cases (simp_all add: handler_defs fold_resizeNext Let_def split: list.splits)
qed

text \<open>
  The theorem of C9 on the lifecycle page: the SDK replaces iframe 1 by iframe 2 after
  the embed has resolved, and the size still goes to iframe 1.
\<close>

theorem iframe_handle_cached_at_embed_witness:
  "(let s = run LifecyclePage (init None) [ViewInit, tokenResponse ''tok123'', SdkMount [1]];
        c = \<lparr>ctxDashboardId = pageDashboardId, guestToken = Some ''tok123'', iframe = None\<rparr>;
        s1 = step LifecyclePage s (EmbedSettled EmbedResolved);
        s2 = run LifecyclePage s1
               [SdkMount [2], ResizeEntries [\<lparr>width = 800, height = 600\<rparr>], Elapse 100, Render]
    in phase s = AwaitEmbed c \<and> \<not> destroyed s \<and> lastEmitted s = None \<and>
       querySelectorIframe s = Some 1 \<and> querySelectorIframe s2 = Some 2 \<and>
       writes s2 = [(1, \<lparr>width = 800, height = 600\<rparr>)])"
  using iframe_handle_cached_at_embed [of LifecyclePage
      "run LifecyclePage (init None) [ViewInit, tokenResponse ''tok123'', SdkMount [1]]"
      "\<lparr>ctxDashboardId = pageDashboardId, guestToken = Some ''tok123'', iframe = None\<rparr>"
      "[2]" "\<lparr>width = 800, height = 600\<rparr>"]
  by (simp add: init_def tokenResponse_def handler_defs Let_def)

text \<open>
  C9 as stated fails on the RxJS page: after the SDK has replaced the iframe, a query of
  the mount finds iframe 2, but the size is written to iframe 1.
\<close>

theorem stale_iframe_handle_counterexample:
  "(let s = run RxjsPage (init None)
              [ViewInit, tokenResponse ''tok123'', SdkMount [1], EmbedSettled EmbedResolved,
               SdkMount [2], ResizeEntries [\<lparr>width = 800, height = 600\<rparr>], Elapse 100]
    in querySelectorIframe s = Some 2 \<and> writes s = [(1, \<lparr>width = 800, height = 600\<rparr>)])"
  by (simp add: init_def tokenResponse_def handler_defs fold_resizeNext Let_def)

subsection \<open>The presentation signals\<close>

lemma presentation_step:
  "(hasError s \<longrightarrow> \<not> isLoading s \<and> errorMessage s \<noteq> []) \<Longrightarrow>
   (hasError (step v s e) \<longrightarrow> \<not> isLoading (step v s e) \<and> errorMessage (step v s e) \<noteq> [])"
  apply (cases e; cases v)
  apply (simp_all add: handler_defs fold_resizeNext missingIdMessage_def loadFailedMessage_def
      Let_def
      split: list.splits sum.splits phase.splits embed_result.splits option.splits prod.splits)
  done

lemma presentation_run:
  "(hasError s \<longrightarrow> \<not> isLoading s \<and> errorMessage s \<noteq> []) \<Longrightarrow>
   (hasError (run v s es) \<longrightarrow> \<not> isLoading (run v s es) \<and> errorMessage (run v s es) \<noteq> [])"
proof (induction es arbitrary: s)
  case Nil
  then show ?case by simp
next
  case (Cons e es)
  from Cons.prems
  have "hasError (step v s e) \<longrightarrow> \<not> isLoading (step v s e) \<and> errorMessage (step v s e) \<noteq> []"
    by (rule presentation_step)
  then show ?case using Cons.IH by simp
qed

text \<open>
  C10. After every event given to any of the components, \<open>hasError\<close> implies that
  \<open>isLoading\<close> is false and that \<open>errorMessage\<close> is not empty.
\<close>

theorem presentation_invariant:
  "hasError (run v (init d) es) \<Longrightarrow>
     \<not> isLoading (run v (init d) es) \<and> errorMessage (run v (init d) es) \<noteq> []"
  using presentation_run [of "init d" v es] by (simp add: init_def)

text \<open>The theorem of C10 at a \<open>DashboardComponent\<close> whose input is not bound.\<close>

theorem presentation_invariant_witness:
  "hasError (run DashboardRx (init None) [ViewInit]) \<and>
   \<not> isLoading (run DashboardRx (init None) [ViewInit]) \<and>
   errorMessage (run DashboardRx (init None) [ViewInit]) \<noteq> []"
  using presentation_invariant [of DashboardRx None "[ViewInit]"]
  by (simp add: init_def handler_defs)

end
